theory Spec2Isabelle
  imports Complex_Main "HOL-Library.AList"
begin

section \<open>The NRG risk engine\<close>

text \<open>
  A shallow embedding of \<^verbatim>\<open>src/risk_engine.py\<close> together with the parts of
  \<^verbatim>\<open>src/storage.py\<close> and \<^verbatim>\<open>src/connectors/base.py\<close> it calls.

  Conventions of the embedding:
  \<^item> A Python \<^verbatim>\<open>float\<close> is a \<^typ>\<open>real\<close>: arithmetic is exact, rounding and
    overflow are not modelled. The only non-finite value the engine creates itself is
    \<^verbatim>\<open>float('inf')\<close> for the utilization of a thesis whose budget is not positive;
    the utilization therefore has its own type with a constructor for it.
  \<^item> One property, the conservation of market value by the grouping, depends on
    rounding. For it the grouping loop is given a second time with the addition as a
    parameter (\<open>group_by_thesis_with\<close>): with exact addition it is the loop of the
    model, with \<open>fadd\<close>, the addition of binary64 floats, it is the loop as Python
    runs it.
  \<^item> A Python \<^verbatim>\<open>dict\<close> keeps insertion order; it is an association list that is
    only changed by \<^const>\<open>AList.update\<close> (an existing key keeps its place, a new key
    goes to the end) and read by \<^const>\<open>map_of\<close>.
  \<^item> An exception is a value: every function that can raise returns a sum with the
    error on the left.
  \<^item> The SQLite database behind \<^verbatim>\<open>Storage\<close> is a record of its tables, each a list
    of rows in insertion order, passed in and returned.
  \<^item> \<^verbatim>\<open>datetime.now()\<close> is an input of \<^verbatim>\<open>compute\<close>; a timestamp is a natural
    number ordered as the ISO strings are.
  \<^item> Functions of the Python runtime the engine calls (\<^verbatim>\<open>re.match\<close> and the
    \<^verbatim>\<open>format\<close> specifications of the f-strings) are parameters, collected in the
    record \<open>PyRuntime\<close>.
  \<^item> Calls to the logger are left out.
  \<^item> Fields of a dataclass carry a prefix naming the class (\<open>pos_\<close>, \<open>acc_\<close>,
    \<open>cfg_\<close>, \<open>tr_\<close>, \<open>rr_\<close>, ...), since several classes share field names.
\<close>

subsection \<open>Data model\<close>

text \<open>\<^verbatim>\<open>class RiskMode(Enum)\<close>; the constructors carry the prefix \<open>Mode_\<close>.\<close>

datatype RiskMode = Mode_NORMAL | Mode_HALF | Mode_MIN

text \<open>\<^verbatim>\<open>mode.value\<close>\<close>

fun RiskMode_value :: "RiskMode \<Rightarrow> string" where
  "RiskMode_value Mode_NORMAL = ''NORMAL''"
| "RiskMode_value Mode_HALF = ''HALF''"
| "RiskMode_value Mode_MIN = ''MIN''"


datatype ThesisStatus = ACTIVE | WATCH | BROKEN



datatype InstrumentType = STOCK | ETF | OPTION | CASH | OTHER


text \<open>A float that may be \<^verbatim>\<open>float('inf')\<close>.\<close>

datatype xfloat = Finite real | PosInf

text \<open>\<^verbatim>\<open>a > b\<close> and \<^verbatim>\<open>a <= b\<close> on such floats.\<close>

fun xgt :: "xfloat \<Rightarrow> xfloat \<Rightarrow> bool" where
  "xgt (Finite a) (Finite b) = (a > b)"
| "xgt PosInf (Finite b) = True"
| "xgt a PosInf = False"

definition xle :: "xfloat \<Rightarrow> xfloat \<Rightarrow> bool" where
  "xle a b = (\<not> xgt a b)"

text \<open>\<^verbatim>\<open>connectors/base.py\<close>: \<^verbatim>\<open>Position\<close> and \<^verbatim>\<open>AccountData\<close>.\<close>

record Position =
  pos_broker :: string
  pos_account_id :: string
  pos_symbol :: string
  pos_instrument_type :: InstrumentType
  pos_qty :: real
  pos_multiplier :: real
  pos_price :: real
  pos_mv :: real
  pos_currency :: string
  pos_thesis :: string
  pos_notes :: "string option"



record ThesisResult =
  tr_name :: string
  tr_mv :: real
  tr_stress_pct :: real
  tr_budget_pct :: real
  tr_worst_loss :: real
  tr_budget_dollars :: real
  tr_utilization :: xfloat
  tr_action :: "string option"
  tr_reduce_amount :: real
  tr_target_mv :: real
  tr_status :: ThesisStatus
  tr_falsifier :: string
  tr_positions :: "Position list"







text \<open>The configuration the engine holds: the dictionary of \<^verbatim>\<open>account.yaml\<close> (either
  key may be absent), the thesis configurations and the mapping rules in load order.\<close>

record AccountConfig =
  ac_drawdown_x :: "real option"
  ac_risk_scale :: "(string \<times> real) list option"





subsection \<open>Mode classifier\<close>

text \<open>\<^verbatim>\<open>d.get(k, default)\<close> on a dictionary.\<close>

definition dict_get :: "('k \<times> 'v) list \<Rightarrow> 'k \<Rightarrow> 'v \<Rightarrow> 'v" where
  "dict_get d k dflt = (case map_of d k of None \<Rightarrow> dflt | Some v \<Rightarrow> v)"

text \<open>\<^verbatim>\<open>self.account_config.get("drawdown_x", 0.12)\<close> and
  \<^verbatim>\<open>self.account_config.get("risk_scale", {})\<close>\<close>

definition config_drawdown_x :: "AccountConfig \<Rightarrow> real" where
  "config_drawdown_x ac = (case ac_drawdown_x ac of None \<Rightarrow> 0.12 | Some v \<Rightarrow> v)"

definition config_risk_scale :: "AccountConfig \<Rightarrow> (string \<times> real) list" where
  "config_risk_scale ac = (case ac_risk_scale ac of None \<Rightarrow> [] | Some d \<Rightarrow> d)"

text \<open>\<^verbatim>\<open>RiskEngine._compute_mode\<close>\<close>

definition compute_mode :: "AccountConfig \<Rightarrow> real \<Rightarrow> RiskMode \<times> real" where
  "compute_mode ac drawdown =
     (let x = config_drawdown_x ac;
          risk_scales = config_risk_scale ac;
          mode = (if drawdown > - x then Mode_NORMAL
                  else if drawdown > - 2 * x then Mode_HALF
                  else Mode_MIN);
          scale = dict_get risk_scales (RiskMode_value mode) 1.0
      in (mode, scale))"

subsection \<open>Mapping resolver\<close>




subsection \<open>Loading the thesis configurations\<close>







subsection \<open>Storage\<close>









subsection \<open>Float addition\<close>







subsection \<open>The computation pass\<close>











text \<open>\<^verbatim>\<open>thesis_results.sort(key=lambda t: t.utilization, reverse=True)\<close>. Python's
  \<^verbatim>\<open>list.sort\<close> is stable, also under \<^verbatim>\<open>reverse=True\<close>: elements with equal keys
  keep their order. It is modelled by the stable insertion sort into descending order.\<close>

fun insert_desc :: "ThesisResult \<Rightarrow> ThesisResult list \<Rightarrow> ThesisResult list" where
  "insert_desc t [] = [t]"
| "insert_desc t (u # us) =
     (if xle (tr_utilization u) (tr_utilization t) then t # u # us
      else u # insert_desc t us)"









subsection \<open>Notions used to state the properties\<close>

text \<open>The elements of a list in the order of their first occurrence.\<close>

definition first_encountered :: "'a list \<Rightarrow> 'a list" where
  "first_encountered xs = rev (remdups (rev xs))"




subsection \<open>Example configuration and inputs\<close>

text \<open>The configuration of the test suite (\<^verbatim>\<open>tests/conftest.py\<close>), a stand-in for the
  runtime that knows the patterns of the examples, and inputs of the tests.\<close>

definition test_account_config :: AccountConfig where
  "test_account_config =
     \<lparr>ac_drawdown_x = Some 0.12,
      ac_risk_scale = Some [(''NORMAL'', 1.0), (''HALF'', 0.5), (''MIN'', 0.2)]\<rparr>"

definition empty_account_config :: AccountConfig where
  "empty_account_config = \<lparr>ac_drawdown_x = None, ac_risk_scale = None\<rparr>"


















section \<open>Auxiliary facts\<close>

subsection \<open>Aggregation and the paths through the computation pass\<close>









subsection \<open>Grouping by thesis\<close>


lemma set_first_encountered [simp]: "set (first_encountered xs) = set xs"
  by (simp add: first_encountered_def)

lemma distinct_first_encountered [simp]: "distinct (first_encountered xs)"
  by (simp add: first_encountered_def)








subsection \<open>The resolver\<close>





subsection \<open>Comparison of utilizations\<close>

lemma xle_refl [simp]: "xle a a"
  by (cases a) (simp_all add: xle_def)



subsection \<open>The sort\<close>

lemma set_insert_desc [simp]: "set (insert_desc t us) = insert t (set us)"
  by (induction us) auto











subsection \<open>The thesis loop\<close>


subsection \<open>The evaluation of one thesis\<close>








subsection \<open>Example runs\<close>






subsection \<open>The persisted peak\<close>










subsection \<open>Sums over the groups with exact addition\<close>







subsection \<open>The loader\<close>



subsection \<open>A zero stress percentage\<close>



subsection \<open>The weights of the rule table\<close>









subsection \<open>Grouping with a rounding addition\<close>












section \<open>Properties of the engine\<close>

text \<open>
  C1. The mode is a function of the drawdown and the configured threshold \<open>X\<close> alone: a
  drawdown above \<open>-X\<close> gives NORMAL, one with \<open>-2X < drawdown \<le> -X\<close> gives HALF, and
  one at or below \<open>-2X\<close> gives MIN (for a threshold that is not negative; in general
  MIN is returned exactly when the drawdown is at most \<open>-X\<close> and at most \<open>-2X\<close>). The
  risk scale is the entry of the configured table for the mode's name, and 1.0 when
  the table has no such entry.
\<close>

theorem compute_mode_classification:
  "(drawdown > - config_drawdown_x ac \<longrightarrow> fst (compute_mode ac drawdown) = Mode_NORMAL)
   \<and> (- 2 * config_drawdown_x ac < drawdown \<and> drawdown \<le> - config_drawdown_x ac
        \<longrightarrow> fst (compute_mode ac drawdown) = Mode_HALF)
   \<and> (0 \<le> config_drawdown_x ac \<and> drawdown \<le> - 2 * config_drawdown_x ac
        \<longrightarrow> fst (compute_mode ac drawdown) = Mode_MIN)
   \<and> (fst (compute_mode ac drawdown) = Mode_MIN
        \<longleftrightarrow> drawdown \<le> - config_drawdown_x ac \<and> drawdown \<le> - 2 * config_drawdown_x ac)
   \<and> snd (compute_mode ac drawdown) =
       (case map_of (config_risk_scale ac) (RiskMode_value (fst (compute_mode ac drawdown))) of
          None \<Rightarrow> 1.0 | Some v \<Rightarrow> v)"
  by (auto simp: compute_mode_def Let_def dict_get_def split: option.splits)

theorem compute_mode_classification_witness:
  "compute_mode test_account_config 0 = (Mode_NORMAL, 1)
   \<and> compute_mode test_account_config (- 0.12) = (Mode_HALF, 0.5)
   \<and> compute_mode test_account_config (- 0.24) = (Mode_MIN, 0.2)
   \<and> compute_mode empty_account_config (- 0.3) = (Mode_MIN, 1)"
proof -
  have x: "config_drawdown_x test_account_config = 0.12"
    by (simp add: config_drawdown_x_def test_account_config_def)
  have x': "config_drawdown_x empty_account_config = 0.12"
    by (simp add: config_drawdown_x_def empty_account_config_def)
  have s: "config_risk_scale test_account_config =
             [(''NORMAL'', 1.0), (''HALF'', 0.5), (''MIN'', 0.2)]"
    by (simp add: config_risk_scale_def test_account_config_def)
  have s': "config_risk_scale empty_account_config = []"
    by (simp add: config_risk_scale_def empty_account_config_def)
  show ?thesis
    using compute_mode_classification [of test_account_config 0]
      compute_mode_classification [of test_account_config "- 0.12"]
      compute_mode_classification [of test_account_config "- 0.24"]
      compute_mode_classification [of empty_account_config "- 0.3"]
    by (simp add: x x' s s' prod_eq_iff)
qed





















end
